theory Spec2Isabelle
  imports Main
begin

section \<open>MEIGA-SR command-line orchestrator (main.py)\<close>

text \<open>
  The script is modelled line by line. Python values are a datatype, exceptions are
  values of a sum type, the dictionary \<open>confDict\<close> is an association list in insertion
  order, and everything the script does to the outside (directories, log file, calls of
  the collaborators) is recorded in an explicit state that is passed along.

  Strings are lists of 8-bit characters. Whitespace and letter case are the ASCII ones;
  characters from 128 on are neither whitespace nor letters in this model.
\<close>

subsection \<open>Python values and exceptions\<close>

text \<open>
  The type \<open>'f\<close> stands for Python's \<open>float\<close>: floating point is not modelled, the
  coercion \<open>float(s)\<close> is a parameter of the environment.
\<close>

datatype 'f pyval =
    PNone
  | PStr string
  | PInt int
  | PBool bool
  | PFloat 'f
  | PList "string list"

datatype exc =
    SystemExit int
  | KeyError string
  | AttributeError string string
  | ValueError string
  | TypeError string

text \<open>Truth value of an object, as \<open>if x:\<close> and \<open>x or y\<close> test it.\<close>

fun truthy :: "'f pyval \<Rightarrow> bool" where
  "truthy PNone = False"
| "truthy (PStr s) = (s \<noteq> [])"
| "truthy (PInt i) = (i \<noteq> 0)"
| "truthy (PBool b) = b"
| "truthy (PFloat x) = True"
| "truthy (PList xs) = (xs \<noteq> [])"

subsection \<open>String methods\<close>

definition isspace :: "char \<Rightarrow> bool" where
  "isspace c = (c = CHR '' '' \<or> c = CHR 0x09 \<or> c = CHR 0x0A \<or> c = CHR 0x0B \<or> c = CHR 0x0C
      \<or> c = CHR 0x0D \<or> c = CHR 0x1C \<or> c = CHR 0x1D \<or> c = CHR 0x1E \<or> c = CHR 0x1F)"

text \<open>\<open>s.strip()\<close>\<close>

definition strip :: "string \<Rightarrow> string" where
  "strip s = rev (dropWhile isspace (rev (dropWhile isspace s)))"

text \<open>\<open>s.split(sep)\<close> for a one-character separator: never the empty list.\<close>

fun split_sep :: "char \<Rightarrow> string \<Rightarrow> string list" where
  "split_sep sep [] = [[]]"
| "split_sep sep (c # cs) =
     (if c = sep then [] # split_sep sep cs
      else (c # hd (split_sep sep cs)) # tl (split_sep sep cs))"

text \<open>\<open>sep.join(xs)\<close>\<close>

fun join_sep :: "char \<Rightarrow> string list \<Rightarrow> string" where
  "join_sep sep [] = []"
| "join_sep sep [x] = x"
| "join_sep sep (x # y # ys) = x @ sep # join_sep sep (y # ys)"

text \<open>\<open>s.lower()\<close>\<close>

definition lower_char :: "char \<Rightarrow> char" where
  "lower_char c =
     (case map_of (zip ''ABCDEFGHIJKLMNOPQRSTUVWXYZ'' ''abcdefghijklmnopqrstuvwxyz'') c of
        None \<Rightarrow> c
      | Some l \<Rightarrow> l)"

definition lower :: "string \<Rightarrow> string" where
  "lower s = map lower_char s"

subsection \<open>\<open>int(s)\<close>\<close>

definition digit_val :: "char \<Rightarrow> nat option" where
  "digit_val c = map_of (zip ''0123456789'' [0, 1, 2, 3, 4, 5, 6, 7, 8, 9]) c"

text \<open>
  The digits after the first one: a single underscore may stand between two digits.
\<close>

fun more_digits :: "nat \<Rightarrow> string \<Rightarrow> nat option" where
  "more_digits acc [] = Some acc"
| "more_digits acc [c] =
     (case digit_val c of None \<Rightarrow> None | Some d \<Rightarrow> Some (10 * acc + d))"
| "more_digits acc (c # d # cs) =
     (case digit_val c of
        Some v \<Rightarrow> more_digits (10 * acc + v) (d # cs)
      | None \<Rightarrow>
          if c = CHR ''_'' then
            (case digit_val d of None \<Rightarrow> None | Some v \<Rightarrow> more_digits (10 * acc + v) cs)
          else None)"

definition digits :: "string \<Rightarrow> nat option" where
  "digits s =
     (case s of
        [] \<Rightarrow> None
      | c # cs \<Rightarrow> (case digit_val c of None \<Rightarrow> None | Some d \<Rightarrow> more_digits d cs))"

text \<open>
  \<open>int(s)\<close> in base 10: surrounding whitespace is ignored, one sign is allowed; \<open>None\<close>
  is the \<open>ValueError\<close>.
\<close>

definition py_int :: "string \<Rightarrow> int option" where
  "py_int s =
     (case strip s of
        [] \<Rightarrow> None
      | c # cs \<Rightarrow>
          if c = CHR ''-'' then map_option (\<lambda>n. - int n) (digits cs)
          else if c = CHR ''+'' then map_option int (digits cs)
          else map_option int (digits (c # cs)))"

subsection \<open>configparser: the section proxy \<open>config\<close>\<close>

text \<open>
  A parsed section is the association list of its options and their values, as
  \<open>ConfigParser(inline_comment_prefixes = ('#'))\<close> holds them after \<open>read\<close>: option
  names in lower case (\<open>optionxform\<close>), values with comments and surrounding
  whitespace removed and after interpolation. A lookup transforms the name it is given
  in the same way. The methods of a section proxy pass \<open>fallback=None\<close> on, so an
  option that is missing gives \<open>None\<close> and no exception.
\<close>

type_synonym config_section = "(string \<times> string) list"

definition optionxform :: "string \<Rightarrow> string" where
  "optionxform k = lower k"

definition config_get :: "config_section \<Rightarrow> string \<Rightarrow> 'f pyval" where
  "config_get config k =
     (case map_of config (optionxform k) of None \<Rightarrow> PNone | Some v \<Rightarrow> PStr v)"

definition config_getint :: "config_section \<Rightarrow> string \<Rightarrow> exc + 'f pyval" where
  "config_getint config k =
     (case map_of config (optionxform k) of
        None \<Rightarrow> Inr PNone
      | Some v \<Rightarrow> (case py_int v of None \<Rightarrow> Inl (ValueError v) | Some i \<Rightarrow> Inr (PInt i)))"

definition config_getfloat :: "(string \<Rightarrow> 'f option) \<Rightarrow> config_section \<Rightarrow> string \<Rightarrow> exc + 'f pyval" where
  "config_getfloat conv config k =
     (case map_of config (optionxform k) of
        None \<Rightarrow> Inr PNone
      | Some v \<Rightarrow> (case conv v of None \<Rightarrow> Inl (ValueError v) | Some x \<Rightarrow> Inr (PFloat x)))"

text \<open>\<open>BOOLEAN_STATES\<close> of configparser.\<close>

definition convert_to_boolean :: "string \<Rightarrow> bool option" where
  "convert_to_boolean v =
     (if lower v \<in> set [''1'', ''yes'', ''true'', ''on''] then Some True
      else if lower v \<in> set [''0'', ''no'', ''false'', ''off''] then Some False
      else None)"

definition config_getboolean :: "config_section \<Rightarrow> string \<Rightarrow> exc + 'f pyval" where
  "config_getboolean config k =
     (case map_of config (optionxform k) of
        None \<Rightarrow> Inr PNone
      | Some v \<Rightarrow>
          (case convert_to_boolean v of None \<Rightarrow> Inl (ValueError v) | Some b \<Rightarrow> Inr (PBool b)))"

text \<open>\<open>None if config.get(k) == 'none' else config.get(k)\<close>\<close>

definition none_or_get :: "config_section \<Rightarrow> string \<Rightarrow> 'f pyval" where
  "none_or_get config k =
     (if (config_get config k :: 'f pyval) = PStr ''none'' then PNone else config_get config k)"

text \<open>
  \<open>[x.strip() for x in v.split(',')]\<close>: only a string has \<open>split\<close>.
\<close>

fun type_name :: "'f pyval \<Rightarrow> string" where
  "type_name PNone = ''NoneType''"
| "type_name (PStr s) = ''str''"
| "type_name (PInt i) = ''int''"
| "type_name (PBool b) = ''bool''"
| "type_name (PFloat x) = ''float''"
| "type_name (PList xs) = ''list''"

definition split_strip :: "'f pyval \<Rightarrow> exc + 'f pyval" where
  "split_strip v =
     (case v of
        PStr s \<Rightarrow> Inr (PList (map strip (split_sep CHR '','' s)))
      | _ \<Rightarrow> Inl (AttributeError (type_name v) ''split''))"

subsection \<open>argparse: the two subcommands\<close>

text \<open>
  The parser is modelled for command lines that spell every option as it is declared
  and give its value as the next argument. What argparse also accepts (an abbreviated
  long option, \<open>--opt=value\<close>, \<open>-ovalue\<close>, joined short flags, the separator \<open>--\<close>) is
  a usage error here. A usage error ends the process with status 2, the help with 0.
\<close>

datatype action = Store | StoreInt | StoreTrue | Help

datatype 'f argument =
    Positional string
  | Optional "string list" string action "'f pyval"

type_synonym 'f namespace = "(string \<times> 'f pyval) list"

definition help_argument :: "'f argument" where
  "help_argument = Optional [''-h'', ''--help''] ''help'' Help PNone"

definition call_arguments :: "string \<Rightarrow> 'f argument list" where
  "call_arguments cwd =
     [help_argument,
      Positional ''config'',
      Positional ''bam'',
      Optional [''--normalBam''] ''normalBam'' Store PNone,
      Optional [''-o'', ''--outDir''] ''outDir'' Store (PStr cwd),
      Optional [''-p'', ''--processes''] ''processes'' StoreInt (PInt 1),
      Optional [''-d'', ''--debug''] ''debug'' StoreTrue (PBool False),
      Optional [''--predict''] ''predict'' StoreTrue (PBool False)]"

definition call_tds_arguments :: "string \<Rightarrow> 'f argument list" where
  "call_tds_arguments cwd =
     [help_argument,
      Positional ''config'',
      Positional ''bam'',
      Optional [''--normalBam''] ''normalBam'' Store PNone,
      Optional [''-o'', ''--outDir''] ''outDir'' Store (PStr cwd),
      Optional [''-p'', ''--processes''] ''processes'' StoreInt (PInt 1),
      Optional [''-d'', ''--debug''] ''debug'' StoreTrue (PBool False)]"

fun find_option :: "'f argument list \<Rightarrow> string \<Rightarrow> (string \<times> action) option" where
  "find_option [] t = None"
| "find_option (Positional d # rest) t = find_option rest t"
| "find_option (Optional flags d a dflt # rest) t =
     (if t \<in> set flags then Some (d, a) else find_option rest t)"

text \<open>The attributes a parser sets before it reads any argument.\<close>

fun defaults :: "'f argument list \<Rightarrow> 'f namespace" where
  "defaults [] = []"
| "defaults (Positional d # rest) = (d, PNone) # defaults rest"
| "defaults (Optional flags d a dflt # rest) =
     (if a = Help then defaults rest else (d, dflt) # defaults rest)"

fun positionals :: "'f argument list \<Rightarrow> string list" where
  "positionals [] = []"
| "positionals (Positional d # rest) = d # positionals rest"
| "positionals (Optional flags d a dflt # rest) = positionals rest"

definition isdigit :: "char \<Rightarrow> bool" where
  "isdigit c = (digit_val c \<noteq> None)"

text \<open>argparse's pattern for a negative number: \<open>-\<close>digits, or \<open>-\<close>digits\<open>.\<close>digits.\<close>

definition negative_number :: "string \<Rightarrow> bool" where
  "negative_number t =
     (case t of
        [] \<Rightarrow> False
      | c # cs \<Rightarrow>
          c = CHR ''-'' \<and>
          ((cs \<noteq> [] \<and> list_all isdigit cs) \<or>
           (case dropWhile isdigit cs of
              [] \<Rightarrow> False
            | d # ds \<Rightarrow> d = CHR ''.'' \<and> ds \<noteq> [] \<and> list_all isdigit ds)))"

text \<open>
  An argument that no parser option matches still reads as an option when it starts
  with \<open>-\<close>, is longer than that, is no negative number and has no space in it.
\<close>

definition option_like :: "string \<Rightarrow> bool" where
  "option_like t =
     (case t of
        [] \<Rightarrow> False
      | c # cs \<Rightarrow> c = CHR ''-'' \<and> cs \<noteq> [] \<and> \<not> negative_number t \<and> CHR '' '' \<notin> set t)"

definition is_optional :: "'f argument list \<Rightarrow> string \<Rightarrow> bool" where
  "is_optional specs t = (find_option specs t \<noteq> None \<or> option_like t)"

text \<open>
  An argument that is left over makes the parse a usage error at its end, unless the help
  is reached first.
\<close>

definition unrecognized :: "exc + 'a \<Rightarrow> exc + 'a" where
  "unrecognized r = (if r = Inl (SystemExit 0) then Inl (SystemExit 0) else Inl (SystemExit 2))"

fun parse_sub :: "'f argument list \<Rightarrow> string list \<Rightarrow> string list \<Rightarrow> 'f namespace \<Rightarrow> exc + 'f namespace" where
  "parse_sub specs pend [] ns = (if pend = [] then Inr ns else Inl (SystemExit 2))"
| "parse_sub specs pend (t # ts) ns =
     (case find_option specs t of
        Some (dest, Help) \<Rightarrow> Inl (SystemExit 0)
      | Some (dest, StoreTrue) \<Rightarrow> parse_sub specs pend ts ((dest, PBool True) # ns)
      | Some (dest, Store) \<Rightarrow>
          (case ts of
             [] \<Rightarrow> Inl (SystemExit 2)
           | v # ts' \<Rightarrow>
               if is_optional specs v then Inl (SystemExit 2)
               else parse_sub specs pend ts' ((dest, PStr v) # ns))
      | Some (dest, StoreInt) \<Rightarrow>
          (case ts of
             [] \<Rightarrow> Inl (SystemExit 2)
           | v # ts' \<Rightarrow>
               if is_optional specs v then Inl (SystemExit 2)
               else (case py_int v of
                       None \<Rightarrow> Inl (SystemExit 2)
                     | Some i \<Rightarrow> parse_sub specs pend ts' ((dest, PInt i) # ns)))
      | None \<Rightarrow>
          if option_like t then unrecognized (parse_sub specs pend ts ns)
          else (case pend of
                  [] \<Rightarrow> unrecognized (parse_sub specs pend ts ns)
                | p # ps \<Rightarrow> parse_sub specs ps ts ((p, PStr t) # ns)))"

text \<open>
  \<open>parser.parse_args()\<close> on \<open>sys.argv[1:]\<close>. The subparsers are not required: without
  arguments the result is the empty namespace.
\<close>

definition parse_args :: "string \<Rightarrow> string list \<Rightarrow> exc + 'f namespace" where
  "parse_args cwd argv =
     (case argv of
        [] \<Rightarrow> Inr []
      | t # ts \<Rightarrow>
          if t = ''-h'' \<or> t = ''--help'' then Inl (SystemExit 0)
          else if option_like t then Inl (SystemExit 2)
          else if t = ''call'' then
            parse_sub (call_arguments cwd) (positionals (call_arguments cwd :: 'f argument list)) ts
              ((''call_tds'', PBool False) # defaults (call_arguments cwd))
          else if t = ''call-tds'' then
            parse_sub (call_tds_arguments cwd) (positionals (call_tds_arguments cwd :: 'f argument list)) ts
              ((''call_tds'', PBool True) # defaults (call_tds_arguments cwd))
          else Inl (SystemExit 2))"

definition getattr :: "'f namespace \<Rightarrow> string \<Rightarrow> exc + 'f pyval" where
  "getattr ns a =
     (case map_of ns a of None \<Rightarrow> Inl (AttributeError ''Namespace'' a) | Some v \<Rightarrow> Inr v)"

subsection \<open>The calling engines, the environment and the state of a run\<close>

text \<open>
  The two engines of \<open>modules/caller.py\<close>, built from
  \<open>(mode, bam, normalBam, reference, refDir, confDict)\<close>.
\<close>

type_synonym 'f dict = "(string \<times> 'f pyval) list"

datatype 'f engine =
    MEI_caller string "'f pyval" "'f pyval" "'f pyval" "'f pyval" "'f dict"
  | transduction_caller string "'f pyval" "'f pyval" "'f pyval" "'f pyval" "'f dict"

text \<open>
  What a run reads from outside: the answers of the dependency checks, the working
  directory, the command line, the clock (the text \<open>strftime\<close> gives at the first,
  second, ... reading), the section \<open>MEIGA-SR\<close> of the file at a path (\<open>None\<close>: the file
  or the section is not there; a file that cannot be parsed is not modelled), and the
  collaborators \<open>float\<close>, \<open>bamtools.get_refs\<close>, \<open>cd.missing_db\<close> and the engines'
  \<open>call\<close> (\<open>Some e\<close>: it raises \<open>e\<close>). \<open>get_refs\<close> gives a string: the script calls
  \<open>split(',')\<close> on it.
\<close>

record 'f env =
  missing_python_dependencies :: "string list"
  missing_program_dependencies :: "string list"
  getcwd :: string
  argv :: "string list"
  clock :: "nat \<Rightarrow> string"
  read_config :: "'f pyval \<Rightarrow> config_section option"
  py_float :: "string \<Rightarrow> 'f option"
  get_refs :: "'f pyval \<Rightarrow> string"
  missing_db :: "'f pyval \<Rightarrow> 'f pyval \<Rightarrow> string list"
  call_result :: "'f engine \<Rightarrow> exc option"

text \<open>
  What a run does to the outside: the readings of the clock so far, the directories
  that exist, the log files opened, the calls of \<open>get_refs\<close> and \<open>missing_db\<close>, the
  engines constructed and the engines whose \<open>call\<close> was invoked. The records written
  to the log are not modelled.
\<close>

record 'f world =
  ticks :: nat
  dirs :: "string list"
  logfiles :: "string list"
  refs_calls :: "'f pyval list"
  db_calls :: "('f pyval \<times> 'f pyval) list"
  constructed :: "'f engine list"
  called :: "'f engine list"

type_synonym ('f, 'a) run = "'f world \<Rightarrow> (exc + 'a) \<times> 'f world"

definition returns :: "'a \<Rightarrow> ('f, 'a) run" where
  "returns x w = (Inr x, w)"

definition raises :: "exc \<Rightarrow> ('f, 'a) run" where
  "raises e w = (Inl e, w)"

definition from_sum :: "exc + 'a \<Rightarrow> ('f, 'a) run" where
  "from_sum r w = (r, w)"

text \<open>One statement after another: an exception ends the run in the state reached.\<close>

definition and_then :: "('f, 'a) run \<Rightarrow> ('a \<Rightarrow> ('f, 'b) run) \<Rightarrow> ('f, 'b) run" where
  "and_then m f w = (case m w of (Inl e, w') \<Rightarrow> (Inl e, w') | (Inr x, w') \<Rightarrow> f x w')"

text \<open>\<open>str(datetime.now().strftime("%Y%m%d%H%M%S"))\<close>\<close>

definition tick :: "'f world \<Rightarrow> 'f world" where
  "tick w = w\<lparr>ticks := Suc (ticks w)\<rparr>"

definition now :: "'f env \<Rightarrow> ('f, string) run" where
  "now env w = (Inr (clock env (ticks w)), tick w)"

text \<open>
  \<open>os.makedirs(p, exist_ok=True)\<close>: a directory that exists is left as it is. The
  errors of the file system are not modelled.
\<close>

definition add_dir :: "string \<Rightarrow> 'f world \<Rightarrow> 'f world" where
  "add_dir d w = w\<lparr>dirs := (if d \<in> set (dirs w) then dirs w else dirs w @ [d])\<rparr>"

definition makedirs :: "'f pyval \<Rightarrow> ('f, unit) run" where
  "makedirs p w =
     (case p of
        PStr d \<Rightarrow> (Inr (), add_dir d w)
      | _ \<Rightarrow> (Inl (TypeError (type_name p)), w))"

text \<open>\<open>a + t\<close> for a string \<open>t\<close>\<close>

definition str_add :: "'f pyval \<Rightarrow> string \<Rightarrow> exc + 'f pyval" where
  "str_add a t = (case a of PStr s \<Rightarrow> Inr (PStr (s @ t)) | _ \<Rightarrow> Inl (TypeError (type_name a)))"

text \<open>\<open>log.setup_logger(logName, logFile, ...)\<close> opens the log file.\<close>

definition setup_logger :: "'f pyval \<Rightarrow> ('f, unit) run" where
  "setup_logger logFile w =
     (case logFile of
        PStr f \<Rightarrow> (Inr (), w\<lparr>logfiles := logfiles w @ [f]\<rparr>)
      | _ \<Rightarrow> (Inl (TypeError (type_name logFile)), w))"

definition call_get_refs :: "'f env \<Rightarrow> 'f pyval \<Rightarrow> ('f, 'f pyval) run" where
  "call_get_refs env bam w = (Inr (PStr (get_refs env bam)), w\<lparr>refs_calls := refs_calls w @ [bam]\<rparr>)"

definition call_missing_db :: "'f env \<Rightarrow> 'f pyval \<Rightarrow> 'f pyval \<Rightarrow> ('f, string list) run" where
  "call_missing_db env refDir annovarDir w =
     (Inr (missing_db env refDir annovarDir), w\<lparr>db_calls := db_calls w @ [(refDir, annovarDir)]\<rparr>)"

definition construct :: "'f engine \<Rightarrow> ('f, 'f engine) run" where
  "construct e w = (Inr e, w\<lparr>constructed := constructed w @ [e]\<rparr>)"

definition call_engine :: "'f env \<Rightarrow> 'f engine \<Rightarrow> ('f, unit) run" where
  "call_engine env e w =
     ((case call_result env e of None \<Rightarrow> Inr () | Some x \<Rightarrow> Inl x), w\<lparr>called := called w @ [e]\<rparr>)"

text \<open>\<open>d[k]\<close>\<close>

definition dict_get :: "'f dict \<Rightarrow> string \<Rightarrow> exc + 'f pyval" where
  "dict_get d k = (case map_of d k of None \<Rightarrow> Inl (KeyError k) | Some v \<Rightarrow> Inr v)"

subsection \<open>The script\<close>

definition VERSION :: string where
  "VERSION = ''1.1.0''"

text \<open>Lines 22 and 23: the dependency gate.\<close>

definition check_dependencies :: "'f env \<Rightarrow> ('f, unit) run" where
  "check_dependencies env =
     (let missingDependencies =
            (if missing_python_dependencies env \<noteq> [] then missing_python_dependencies env
             else missing_program_dependencies env)
      in if missingDependencies \<noteq> [] then raises (SystemExit 1) else returns ())"

text \<open>Lines 98 to 106: the output directory, made before the configuration is read.\<close>

definition set_output_dir :: "'f env \<Rightarrow> 'f namespace \<Rightarrow> ('f, unit) run" where
  "set_output_dir env args =
     and_then (from_sum (getattr args ''outDir'')) (\<lambda>outDir.
     and_then (from_sum (getattr args ''debug'')) (\<lambda>debug.
     if truthy debug then
       and_then (now env) (\<lambda>timeStamp.
       and_then (from_sum (str_add outDir (''/'' @ timeStamp))) (\<lambda>outDir.
       makedirs outDir))
     else makedirs outDir))"

text \<open>Line 111\<close>

definition running_mode :: "'f pyval \<Rightarrow> string" where
  "running_mode normalBam = (if truthy normalBam then ''PAIRED'' else ''SINGLE'')"

text \<open>Lines 117 to 119: a file without the section gives \<open>KeyError\<close>.\<close>

definition open_config :: "'f env \<Rightarrow> 'f pyval \<Rightarrow> ('f, config_section) run" where
  "open_config env configFile =
     (case read_config env configFile of
        None \<Rightarrow> raises (KeyError ''MEIGA-SR'')
      | Some config \<Rightarrow> returns config)"

text \<open>
  The assignments to \<open>confDict\<close> are kept as the list of their keys and right-hand
  sides, in the order of the source; the first right-hand side that raises ends the run.
\<close>

fun collect :: "(string \<times> (exc + 'v)) list \<Rightarrow> exc + (string \<times> 'v) list" where
  "collect [] = Inr []"
| "collect ((k, Inl e) # rest) = Inl e"
| "collect ((k, Inr v) # rest) =
     (case collect rest of Inl e \<Rightarrow> Inl e | Inr d \<Rightarrow> Inr ((k, v) # d))"

text \<open>Lines 124 to 140\<close>

definition general_entries ::
  "'f namespace \<Rightarrow> 'f pyval \<Rightarrow> config_section \<Rightarrow> (string \<times> (exc + 'f pyval)) list" where
  "general_entries args processes config =
     [(''source'', Inr (PStr (''MEIGA-SR-'' @ VERSION))),
      (''species'', Inr (config_get config ''species'')),
      (''build'', Inr (config_get config ''build'')),
      (''annovarDir'', Inr (config_get config ''annovarDir'')),
      (''germlineMEI'', Inr (none_or_get config ''germlineMEI'')),
      (''processes'', Inr processes),
      (''debug'', getattr args ''debug''),
      (''predict'', getattr args ''predict''),
      (''targetBins'', Inr (none_or_get config ''targetBins'')),
      (''binSize'', config_getint config ''binSize''),
      (''filterDup'', config_getboolean config ''noDuplicates''),
      (''readFilters'', split_strip (config_get config ''readFilters'')),
      (''minMAPQ'', config_getint config ''minMAPQ''),
      (''minCLIPPINGlen'', config_getint config ''minCLIPPINGlen''),
      (''targetEvents'', Inr (PList [''DISCORDANT'', ''CLIPPING'']))]"

text \<open>Lines 143 to 145\<close>

definition target_refs :: "'f env \<Rightarrow> 'f pyval \<Rightarrow> config_section \<Rightarrow> ('f, 'f pyval) run" where
  "target_refs env bam config =
     (let refs = config_get config ''refs'' in
      and_then (if refs = PStr ''ALL'' then call_get_refs env bam else returns refs) (\<lambda>refs.
      from_sum (split_strip refs)))"

text \<open>Lines 149 to 170\<close>

definition search_entries ::
  "(string \<Rightarrow> 'f option) \<Rightarrow> config_section \<Rightarrow> (string \<times> (exc + 'f pyval)) list" where
  "search_entries float config =
     [(''minClusterSize'', config_getint config ''minClusterSize''),
      (''maxClusterSize'', config_getint config ''maxClusterSize''),
      (''maxBkpDist'', config_getint config ''BKPdist''),
      (''minPercRcplOverlap'', config_getint config ''minPercOverlap''),
      (''equalOrientBuffer'', config_getint config ''equalOrientBuffer''),
      (''oppositeOrientBuffer'', config_getint config ''oppositeOrientBuffer''),
      (''minReads'', config_getint config ''minReads''),
      (''minNormalReads'', config_getint config ''minNormalReads''),
      (''minNbDISCORDANT'', config_getint config ''minClusterSize''),
      (''minNbCLIPPING'', config_getint config ''minClusterSize''),
      (''minReadsRegionMQ'', config_getfloat float config ''minReadsRegionMQ''),
      (''maxRegionlowMQ'', config_getfloat float config ''maxRegionlowMQ''),
      (''maxRegionSMS'', config_getfloat float config ''maxRegionSMS''),
      (''retroTestWGS'', config_getboolean config ''wgsData''),
      (''blatClip'', config_getboolean config ''blatClip''),
      (''tdEnds'', split_strip (config_get config ''transductionEnds'')),
      (''srcBed'', Inr (none_or_get config ''sourceBed'')),
      (''srcFamilies'', split_strip (config_get config ''srcFamilies''))]"

text \<open>
  Lines 116 to 170: \<open>reference\<close>, \<open>refDir\<close> and the dictionary, still without its last two
  keys.
\<close>

definition create_confDict ::
  "'f env \<Rightarrow> 'f namespace \<Rightarrow> 'f pyval \<Rightarrow> 'f pyval \<Rightarrow> config_section
     \<Rightarrow> ('f, 'f pyval \<times> 'f pyval \<times> 'f dict) run" where
  "create_confDict env args bam processes config =
     (let reference = config_get config ''reference'';
          refDir = config_get config ''refDir''
      in
      and_then (from_sum (collect (general_entries args processes config))) (\<lambda>general.
      and_then (target_refs env bam config) (\<lambda>targetRefs.
      and_then (from_sum (collect (search_entries (py_float env) config))) (\<lambda>search.
      returns (reference, refDir, general @ [(''targetRefs'', targetRefs)] @ search)))))"

text \<open>Lines 173 to 184: the output directory again, and the log directory.\<close>

definition set_log_dir :: "'f env \<Rightarrow> 'f namespace \<Rightarrow> ('f, 'f pyval \<times> 'f pyval) run" where
  "set_log_dir env args =
     and_then (from_sum (getattr args ''debug'')) (\<lambda>debug.
     and_then (from_sum (getattr args ''outDir'')) (\<lambda>argsOutDir.
     and_then
       (if truthy debug then
          and_then (now env) (\<lambda>timeStamp. from_sum (str_add argsOutDir (''/'' @ timeStamp)))
        else returns argsOutDir) (\<lambda>outDir.
     and_then (from_sum (str_add outDir ''/logs'')) (\<lambda>logDir.
     and_then (makedirs outDir) (\<lambda>_.
     and_then (makedirs logDir) (\<lambda>_.
     returns (outDir, logDir)))))))"

text \<open>Lines 214 and 215: the database gate.\<close>

definition check_db :: "'f env \<Rightarrow> 'f pyval \<Rightarrow> 'f dict \<Rightarrow> ('f, unit) run" where
  "check_db env refDir confDict =
     and_then (from_sum (dict_get confDict ''annovarDir'')) (\<lambda>annovarDir.
     and_then (call_missing_db env refDir annovarDir) (\<lambda>missingDB.
     if missingDB \<noteq> [] then raises (SystemExit 1) else returns ()))"

text \<open>Lines 223 to 231\<close>

definition execute_caller ::
  "'f env \<Rightarrow> 'f namespace \<Rightarrow> string \<Rightarrow> 'f pyval \<Rightarrow> 'f pyval \<Rightarrow> 'f pyval \<Rightarrow> 'f pyval \<Rightarrow> 'f dict
     \<Rightarrow> ('f, unit) run" where
  "execute_caller env args mode bam normalBam reference refDir confDict =
     and_then (from_sum (getattr args ''call_tds'')) (\<lambda>call_tds.
     and_then
       (if truthy call_tds then
          construct (transduction_caller mode bam normalBam reference refDir confDict)
        else construct (MEI_caller mode bam normalBam reference refDir confDict)) (\<lambda>meiCaller.
     call_engine env meiCaller))"

text \<open>Lines 89 to 239, after the command line is parsed.\<close>

definition run_args :: "'f env \<Rightarrow> 'f namespace \<Rightarrow> ('f, unit) run" where
  "run_args env args =
     and_then (from_sum (getattr args ''config'')) (\<lambda>configFile.
     and_then (from_sum (getattr args ''bam'')) (\<lambda>bam.
     and_then (from_sum (getattr args ''normalBam'')) (\<lambda>normalBam.
     and_then (from_sum (getattr args ''processes'')) (\<lambda>processes.
     and_then (set_output_dir env args) (\<lambda>_.
     let mode = running_mode normalBam in
     and_then (open_config env configFile) (\<lambda>config.
     and_then (create_confDict env args bam processes config) (\<lambda>(reference, refDir, confDict).
     and_then (set_log_dir env args) (\<lambda>(outDir, logDir).
     let confDict = confDict @ [(''outDir'', outDir), (''logDir'', logDir)] in
     and_then (from_sum (str_add logDir ''/main.log'')) (\<lambda>logFile.
     and_then (setup_logger logFile) (\<lambda>_.
     and_then (from_sum (getattr args ''call_tds'')) (\<lambda>_.
     and_then (check_db env refDir confDict) (\<lambda>_.
     execute_caller env args mode bam normalBam reference refDir confDict))))))))))))"

text \<open>The whole script: its result and the state it leaves.\<close>

definition main :: "'f env \<Rightarrow> ('f, unit) run" where
  "main env =
     and_then (check_dependencies env) (\<lambda>_.
     and_then (from_sum (parse_args (getcwd env) (argv env))) (\<lambda>args.
     run_args env args))"

definition world0 :: "'f world" where
  "world0 = \<lparr>ticks = 0, dirs = [], logfiles = [], refs_calls = [], db_calls = [],
     constructed = [], called = []\<rparr>"

subsection \<open>An example run\<close>

text \<open>
  A configuration file with every key, as the parser holds it, and an environment in
  which every check passes and the clock moves on by one second between two readings.
\<close>

definition example_config :: config_section where
  "example_config =
     [(''reference'', ''/ref/hg19.fa''), (''refdir'', ''/ref''),
      (''species'', ''Homo sapiens''), (''build'', ''GRCh37''),
      (''annovardir'', ''/annovar''), (''germlinemei'', ''none''),
      (''targetbins'', ''none''), (''binsize'', ''250''),
      (''noduplicates'', ''True''), (''readfilters'', ''SMS, mateUnmap''),
      (''minmapq'', ''20''), (''minclippinglen'', ''8''),
      (''refs'', ''chr1, chr2,chr3''), (''minclustersize'', ''3''),
      (''maxclustersize'', ''500''), (''bkpdist'', ''50''),
      (''minpercoverlap'', ''70''), (''equalorientbuffer'', ''200''),
      (''oppositeorientbuffer'', ''400''), (''minreads'', ''4''),
      (''minnormalreads'', ''2''), (''minreadsregionmq'', ''10''),
      (''maxregionlowmq'', ''0.3''), (''maxregionsms'', ''0.15''),
      (''wgsdata'', ''False''), (''blatclip'', ''True''),
      (''transductionends'', ''3, 5''), (''sourcebed'', ''none''),
      (''srcfamilies'', ''L1,SVA'')]"

text \<open>In the example a float is kept as the text it was read from.\<close>

definition example_float :: "string \<Rightarrow> string option" where
  "example_float s = (if s \<in> set [''10'', ''0.3'', ''0.15''] then Some s else None)"

definition example_env :: "config_section \<Rightarrow> string list \<Rightarrow> string env" where
  "example_env config av =
     \<lparr>missing_python_dependencies = [], missing_program_dependencies = [],
      getcwd = ''/cwd'', argv = av,
      clock = (\<lambda>n. if n = 0 then ''20240101000000'' else ''20240101000001''),
      read_config = (\<lambda>p. if p = PStr ''cfg.ini'' then Some config else None),
      py_float = example_float,
      get_refs = (\<lambda>bam. ''1,2,X''),
      missing_db = (\<lambda>refDir annovarDir. []),
      call_result = (\<lambda>e. None)\<rparr>"

subsection \<open>What a parsed command line looks like\<close>

text \<open>The type of an attribute of a namespace.\<close>

definition attr_is_str :: "'f namespace \<Rightarrow> string \<Rightarrow> bool" where
  "attr_is_str ns a = (case map_of ns a of Some (PStr s) \<Rightarrow> True | _ \<Rightarrow> False)"

definition attr_is_str_or_None :: "'f namespace \<Rightarrow> string \<Rightarrow> bool" where
  "attr_is_str_or_None ns a =
     (case map_of ns a of Some (PStr s) \<Rightarrow> True | Some PNone \<Rightarrow> True | _ \<Rightarrow> False)"

definition attr_is_int :: "'f namespace \<Rightarrow> string \<Rightarrow> bool" where
  "attr_is_int ns a = (case map_of ns a of Some (PInt i) \<Rightarrow> True | _ \<Rightarrow> False)"

definition attr_is_bool :: "'f namespace \<Rightarrow> string \<Rightarrow> bool" where
  "attr_is_bool ns a = (case map_of ns a of Some (PBool b) \<Rightarrow> True | _ \<Rightarrow> False)"

text \<open>
  The namespace while the arguments of a subcommand are read (\<open>tds\<close>: the subcommand is
  \<open>call-tds\<close>): the options have their types, \<open>predict\<close> is an attribute of \<open>call\<close>
  only, and a positional that is no longer pending is a string.
\<close>

definition parsing :: "bool \<Rightarrow> string list \<Rightarrow> 'f namespace \<Rightarrow> bool" where
  "parsing tds pend ns =
     (attr_is_str ns ''outDir'' \<and> attr_is_str_or_None ns ''normalBam''
      \<and> attr_is_int ns ''processes'' \<and> attr_is_bool ns ''debug''
      \<and> map_of ns ''call_tds'' = Some (PBool tds)
      \<and> (if tds then map_of ns ''predict'' = None else attr_is_bool ns ''predict'')
      \<and> (''config'' \<in> set pend \<or> attr_is_str ns ''config'')
      \<and> (''bam'' \<in> set pend \<or> attr_is_str ns ''bam''))"

definition subcommand_arguments :: "bool \<Rightarrow> string \<Rightarrow> 'f argument list" where
  "subcommand_arguments tds cwd = (if tds then call_tds_arguments cwd else call_arguments cwd)"

fun engine_mode :: "'f engine \<Rightarrow> string" where
  "engine_mode (MEI_caller mode bam normalBam reference refDir confDict) = mode"
| "engine_mode (transduction_caller mode bam normalBam reference refDir confDict) = mode"

fun engine_confDict :: "'f engine \<Rightarrow> 'f dict" where
  "engine_confDict (MEI_caller mode bam normalBam reference refDir confDict) = confDict"
| "engine_confDict (transduction_caller mode bam normalBam reference refDir confDict) = confDict"

text \<open>The example file without one key, and with another value for one key.\<close>

definition config_without :: "string \<Rightarrow> config_section \<Rightarrow> config_section" where
  "config_without k config = filter (\<lambda>kv. fst kv \<noteq> k) config"

definition config_with :: "string \<Rightarrow> string \<Rightarrow> config_section \<Rightarrow> config_section" where
  "config_with k v config = map (\<lambda>kv. if fst kv = k then (k, v) else kv) config"

section \<open>Properties\<close>

subsection \<open>Running one statement after another\<close>

lemma and_then_from_sum_Inl [simp]: "and_then (from_sum (Inl e)) f w = (Inl e, w)"
  by (simp add: and_then_def from_sum_def)

lemma and_then_from_sum_Inr [simp]: "and_then (from_sum (Inr x)) f w = f x w"
  by (simp add: and_then_def from_sum_def)

lemma and_then_returns [simp]: "and_then (returns x) f w = f x w"
  by (simp add: and_then_def returns_def)

lemma and_then_raises [simp]: "and_then (raises e) f w = (Inl e, w)"
  by (simp add: and_then_def raises_def)

lemma check_dependencies_pass:
  "missing_python_dependencies env = [] \<Longrightarrow> missing_program_dependencies env = []
     \<Longrightarrow> check_dependencies env = returns ()"
  by (simp add: check_dependencies_def)

lemma check_dependencies_fail:
  "missing_python_dependencies env \<noteq> [] \<or> missing_program_dependencies env \<noteq> []
     \<Longrightarrow> check_dependencies env = raises (SystemExit 1)"
  by (auto simp: check_dependencies_def)

subsection \<open>Splitting, joining and stripping\<close>

lemma split_sep_not_Nil [simp]: "split_sep sep s \<noteq> []"
  by (induction s) simp_all

lemma join_sep_Cons: "ys \<noteq> [] \<Longrightarrow> join_sep sep (x # ys) = x @ sep # join_sep sep ys"
  by (cases ys) simp_all

lemma join_sep_Cons_Cons: "join_sep sep ((c # x) # ys) = c # join_sep sep (x # ys)"
  by (cases ys) simp_all

lemma join_split: "join_sep sep (split_sep sep s) = s"
proof (induction s)
  case Nil
  show ?case by simp
next
  case (Cons c cs)
  have r: "split_sep sep cs = hd (split_sep sep cs) # tl (split_sep sep cs)" by simp
  show ?case
  proof (cases "c = sep")
    case True
    then show ?thesis using Cons by (simp add: join_sep_Cons)
  next
    case False
    have "join_sep sep ((c # hd (split_sep sep cs)) # tl (split_sep sep cs))
        = c # join_sep sep (hd (split_sep sep cs) # tl (split_sep sep cs))"
      by (rule join_sep_Cons_Cons)
    also have "\<dots> = c # cs" using Cons r by simp
    finally show ?thesis using False by simp
  qed
qed

lemma split_no_sep: "x \<in> set (split_sep sep s) \<Longrightarrow> sep \<notin> set x"
proof (induction s arbitrary: x)
  case Nil
  then show ?case by simp
next
  case (Cons c cs)
  have r: "set (split_sep sep cs) = insert (hd (split_sep sep cs)) (set (tl (split_sep sep cs)))"
    by (metis list.collapse list.simps(15) split_sep_not_Nil)
  show ?case
  proof (cases "c = sep")
    case True
    with Cons show ?thesis by auto
  next
    case False
    with Cons.prems have "x = c # hd (split_sep sep cs) \<or> x \<in> set (tl (split_sep sep cs))" by simp
    then show ?thesis
    proof
      assume "x = c # hd (split_sep sep cs)"
      moreover have "sep \<notin> set (hd (split_sep sep cs))" using Cons.IH r by blast
      ultimately show ?thesis using False by simp
    next
      assume "x \<in> set (tl (split_sep sep cs))"
      then show ?thesis using Cons.IH r by blast
    qed
  qed
qed

lemma split_sep_single: "sep \<notin> set x \<Longrightarrow> split_sep sep x = [x]"
  by (induction x) auto

lemma split_sep_append: "sep \<notin> set x \<Longrightarrow> split_sep sep (x @ sep # rest) = x # split_sep sep rest"
  by (induction x) auto

lemma split_join:
  "names \<noteq> [] \<Longrightarrow> \<forall>n \<in> set names. sep \<notin> set n \<Longrightarrow> split_sep sep (join_sep sep names) = names"
proof (induction sep names rule: join_sep.induct)
  case (1 sep)
  then show ?case by simp
next
  case (2 sep x)
  then show ?case by (simp add: split_sep_single)
next
  case (3 sep x y ys)
  then show ?case by (simp add: split_sep_append)
qed

lemma length_split: "length (split_sep sep s) = Suc (length (filter (\<lambda>c. c = sep) s))"
  by (induction s) simp_all

lemma tl_split_trailing: "tl (split_sep sep (s @ [sep])) \<noteq> []"
proof -
  have "length (split_sep sep (s @ [sep])) \<ge> 2" by (simp add: length_split)
  then show ?thesis by (cases "split_sep sep (s @ [sep])") auto
qed

lemma last_split_trailing: "last (split_sep sep (s @ [sep])) = []"
proof (induction s)
  case Nil
  show ?case by simp
next
  case (Cons c s)
  show ?case
  proof (cases "c = sep")
    case True
    then show ?thesis using Cons by simp
  next
    case False
    have "last ((c # hd (split_sep sep (s @ [sep]))) # tl (split_sep sep (s @ [sep])))
        = last (tl (split_sep sep (s @ [sep])))"
      using tl_split_trailing [of sep s] by simp
    also have "\<dots> = last (split_sep sep (s @ [sep]))"
      using tl_split_trailing [of sep s] by (simp add: last_tl)
    finally show ?thesis using False Cons by simp
  qed
qed

lemma strip_id: "s = [] \<or> (\<not> isspace (hd s) \<and> \<not> isspace (last s)) \<Longrightarrow> strip s = s"
proof (cases s)
  case Nil
  then show ?thesis by (simp add: strip_def)
next
  case (Cons c cs)
  assume "s = [] \<or> (\<not> isspace (hd s) \<and> \<not> isspace (last s))"
  with Cons have h: "\<not> isspace (hd s)" and l: "\<not> isspace (last s)" and ne: "s \<noteq> []" by auto
  from h ne have d: "dropWhile isspace s = s" by (cases s) auto
  from l ne have "\<not> isspace (hd (rev s))" by (simp add: hd_rev)
  with ne have "dropWhile isspace (rev s) = rev s" by (cases "rev s") auto
  with d show ?thesis by (simp add: strip_def)
qed

lemma strip_decompose:
  "s = takeWhile isspace s @ strip s @ rev (takeWhile isspace (rev (dropWhile isspace s)))"
proof -
  let ?m = "dropWhile isspace s"
  have "rev (dropWhile isspace (rev ?m)) @ rev (takeWhile isspace (rev ?m))
      = rev (takeWhile isspace (rev ?m) @ dropWhile isspace (rev ?m))"
    by (simp only: rev_append)
  also have "\<dots> = rev (rev ?m)" by (simp only: takeWhile_dropWhile_id)
  finally have "?m = strip s @ rev (takeWhile isspace (rev ?m))" by (simp add: strip_def)
  moreover have "s = takeWhile isspace s @ ?m" by simp
  ultimately show ?thesis by metis
qed

lemma last_dropWhile: "dropWhile P xs \<noteq> [] \<Longrightarrow> last (dropWhile P xs) = last xs"
  by (induction xs) (auto split: if_splits)

lemma strip_ends:
  assumes "strip s \<noteq> []"
  shows "\<not> isspace (hd (strip s)) \<and> \<not> isspace (last (strip s))"
proof -
  let ?m = "dropWhile isspace s"
  let ?d = "dropWhile isspace (rev ?m)"
  from assms have d: "?d \<noteq> []" by (simp add: strip_def)
  then have "rev ?m \<noteq> []" by (metis dropWhile.simps(1))
  then have m: "?m \<noteq> []" by simp
  have "last (strip s) = hd ?d" using d by (simp add: strip_def last_rev)
  moreover have "\<not> isspace (hd ?d)" using d hd_dropWhile by blast
  moreover have "hd (strip s) = last ?d" using d by (simp add: strip_def hd_rev)
  moreover have "last ?d = last (rev ?m)" using d by (rule last_dropWhile)
  moreover have "last (rev ?m) = hd ?m" using m by (simp add: last_rev)
  moreover have "\<not> isspace (hd ?m)" using m hd_dropWhile by blast
  ultimately show ?thesis by simp
qed

subsection \<open>The namespace of a subcommand\<close>

lemma find_option_cases:
  "find_option (subcommand_arguments tds cwd :: 'f argument list) t = Some (d, a) \<Longrightarrow>
     (d, a) \<in> {(''help'', Help), (''normalBam'', Store), (''outDir'', Store),
                (''processes'', StoreInt), (''debug'', StoreTrue)} \<or> (\<not> tds \<and> (d, a) = (''predict'', StoreTrue))"
  by (simp add: subcommand_arguments_def call_arguments_def call_tds_arguments_def help_argument_def split: if_splits)

lemma unrecognized_not_Inr [simp]: "unrecognized r \<noteq> Inr x"
  by (simp add: unrecognized_def)

lemma attr_is_str_Cons:
  "attr_is_str ((k, v) # ns) a = (if a = k then (case v of PStr s \<Rightarrow> True | _ \<Rightarrow> False) else attr_is_str ns a)"
  by (simp add: attr_is_str_def)

lemma attr_is_str_or_None_Cons:
  "attr_is_str_or_None ((k, v) # ns) a =
     (if a = k then (case v of PStr s \<Rightarrow> True | PNone \<Rightarrow> True | _ \<Rightarrow> False) else attr_is_str_or_None ns a)"
  by (simp add: attr_is_str_or_None_def)

lemma attr_is_int_Cons:
  "attr_is_int ((k, v) # ns) a = (if a = k then (case v of PInt s \<Rightarrow> True | _ \<Rightarrow> False) else attr_is_int ns a)"
  by (simp add: attr_is_int_def)

lemma attr_is_bool_Cons:
  "attr_is_bool ((k, v) # ns) a = (if a = k then (case v of PBool s \<Rightarrow> True | _ \<Rightarrow> False) else attr_is_bool ns a)"
  by (simp add: attr_is_bool_def)

lemmas attr_Cons = attr_is_str_Cons attr_is_str_or_None_Cons attr_is_int_Cons attr_is_bool_Cons

lemma parsing_normalBam: "parsing tds pend ns \<Longrightarrow> parsing tds pend ((''normalBam'', PStr v) # ns)"
  by (simp add: parsing_def attr_Cons)

lemma parsing_outDir: "parsing tds pend ns \<Longrightarrow> parsing tds pend ((''outDir'', PStr v) # ns)"
  by (simp add: parsing_def attr_Cons)

lemma parsing_processes: "parsing tds pend ns \<Longrightarrow> parsing tds pend ((''processes'', PInt i) # ns)"
  by (simp add: parsing_def attr_Cons)

lemma parsing_debug: "parsing tds pend ns \<Longrightarrow> parsing tds pend ((''debug'', PBool True) # ns)"
  by (simp add: parsing_def attr_Cons)

lemma parsing_predict: "parsing False pend ns \<Longrightarrow> parsing False pend ((''predict'', PBool True) # ns)"
  by (simp add: parsing_def attr_Cons)

lemma parsing_config: "parsing tds (''config'' # ps) ns \<Longrightarrow> parsing tds ps ((''config'', PStr t) # ns)"
  by (simp add: parsing_def attr_Cons)

lemma parsing_bam: "parsing tds (''bam'' # ps) ns \<Longrightarrow> parsing tds ps ((''bam'', PStr t) # ns)"
  by (simp add: parsing_def attr_Cons)


lemma parse_sub_parsing:
  "parse_sub specs pend ts ns = Inr (ns' :: 'f namespace) \<Longrightarrow> specs = subcommand_arguments tds cwd \<Longrightarrow>
   set pend \<subseteq> {''config'', ''bam''} \<Longrightarrow> parsing tds pend ns \<Longrightarrow> parsing tds [] ns'"
proof (induction specs pend ts ns rule: parse_sub.induct)
  case (1 specs pend ns)
  then show ?case by (simp split: if_splits)
next
  case (2 specs pend t ts ns)
  note prems = "2.prems"
  show ?case
  proof (cases "find_option specs t")
    case None
    show ?thesis
    proof (cases "option_like t \<or> pend = []")
      case True
      with prems(1) None show ?thesis by (auto split: list.splits)
    next
      case False
      then have nol: "\<not> option_like t" by simp
      from False obtain p ps where pend: "pend = p # ps" by (cases pend) auto
      with prems(3) have p: "p = ''config'' \<or> p = ''bam''" and ps: "set ps \<subseteq> {''config'', ''bam''}" by auto
      from prems(1) None nol pend have r: "parse_sub specs ps ts ((p, PStr t) # ns) = Inr ns'" by simp
      from p prems(4) pend have "parsing tds ps ((p, PStr t) # ns)"
        by (elim disjE) (simp_all add: parsing_config parsing_bam)
      then show ?thesis
        by (rule "2.IH"(3) [OF None nol pend r prems(2) ps])
    qed
  next
    case (Some da)
    obtain d a where da: "da = (d, a)" by (cases da)
    from Some da prems(2) have fo: "find_option (subcommand_arguments tds cwd :: 'f argument list) t = Some (d, a)" by simp
    note c = find_option_cases [OF fo]
    show ?thesis
    proof (cases a)
      case Store
      with c have d: "d = ''normalBam'' \<or> d = ''outDir''" by simp
      from prems(1) Some da Store obtain v ts' where ts: "ts = v # ts'" and nopt: "\<not> is_optional specs v"
        and r: "parse_sub specs pend ts' ((d, PStr v) # ns) = Inr ns'"
        by (cases ts) (simp_all split: if_splits)
      from d prems(4) have "parsing tds pend ((d, PStr v) # ns)"
        by (elim disjE) (simp_all add: parsing_normalBam parsing_outDir)
      then show ?thesis
        by (rule "2.IH"(4) [OF Some da [symmetric] Store ts nopt r prems(2) prems(3)])
    next
      case StoreInt
      with c have d: "d = ''processes''" by simp
      from prems(1) Some da StoreInt obtain v ts' i where ts: "ts = v # ts'" and nopt: "\<not> is_optional specs v"
        and i: "py_int v = Some i"
        and r: "parse_sub specs pend ts' ((d, PInt i) # ns) = Inr ns'"
        by (cases ts) (simp_all split: if_splits option.splits)
      from d prems(4) have "parsing tds pend ((d, PInt i) # ns)"
        by (simp add: parsing_processes)
      then show ?thesis
        by (rule "2.IH"(5) [OF Some da [symmetric] StoreInt ts nopt i r prems(2) prems(3)])
    next
      case StoreTrue
      with c have d: "d = ''debug'' \<or> (\<not> tds \<and> d = ''predict'')" by simp
      from prems(1) Some da StoreTrue have r: "parse_sub specs pend ts ((d, PBool True) # ns) = Inr ns'"
        by simp
      from d prems(4) have "parsing tds pend ((d, PBool True) # ns)"
        by (elim disjE conjE) (simp_all add: parsing_debug parsing_predict)
      then show ?thesis
        by (rule "2.IH"(6) [OF Some da [symmetric] StoreTrue r prems(2) prems(3)])
    next
      case Help
      with prems(1) Some da show ?thesis by simp
    qed
  qed
qed

lemma parsing_defaults:
  "parsing tds [''config'', ''bam''] ((''call_tds'', PBool tds) # defaults (subcommand_arguments tds cwd))"
  by (simp add: parsing_def attr_Cons subcommand_arguments_def call_arguments_def call_tds_arguments_def
      help_argument_def attr_is_str_def attr_is_str_or_None_def attr_is_int_def attr_is_bool_def)

lemma positionals_subcommand:
  "positionals (subcommand_arguments tds cwd :: 'f argument list) = [''config'', ''bam'']"
  by (simp add: subcommand_arguments_def call_arguments_def call_tds_arguments_def help_argument_def)


lemma parse_sub_subcommand:
  assumes "parse_sub (subcommand_arguments tds cwd) [''config'', ''bam''] ts
      ((''call_tds'', PBool tds) # defaults (subcommand_arguments tds cwd)) = Inr (args :: 'f namespace)"
  shows "parsing tds [] args"
  by (rule parse_sub_parsing [OF assms refl _ parsing_defaults]) simp

lemma parse_args_cases:
  assumes "parse_args cwd av = Inr (args :: 'f namespace)"
  shows "(av = [] \<and> args = []) \<or> (\<exists>ts. av = ''call'' # ts \<and> parsing False [] args)
    \<or> (\<exists>ts. av = ''call-tds'' # ts \<and> parsing True [] args)"
proof (cases av)
  case Nil
  with assms show ?thesis by (simp add: parse_args_def)
next
  case (Cons t ts)
  with assms have t: "t = ''call'' \<or> t = ''call-tds''"
    by (simp add: parse_args_def split: if_splits)
  then show ?thesis
  proof
    assume c: "t = ''call''"
    with assms Cons have "parse_sub (subcommand_arguments False cwd) [''config'', ''bam''] ts
      ((''call_tds'', PBool False) # defaults (subcommand_arguments False cwd)) = Inr args"
      by (simp add: parse_args_def subcommand_arguments_def call_arguments_def help_argument_def
          split: if_splits)
    from parse_sub_subcommand [OF this] c Cons show ?thesis by simp
  next
    assume c: "t = ''call-tds''"
    with assms Cons have "parse_sub (subcommand_arguments True cwd) [''config'', ''bam''] ts
      ((''call_tds'', PBool True) # defaults (subcommand_arguments True cwd)) = Inr args"
      by (simp add: parse_args_def subcommand_arguments_def call_tds_arguments_def help_argument_def
          split: if_splits)
    from parse_sub_subcommand [OF this] c Cons show ?thesis by simp
  qed
qed

lemma parsing_getattr:
  assumes "parsing tds [] (args :: 'f namespace)"
  shows "\<exists>config bam normalBam outDir processes debug.
      getattr args ''config'' = Inr (PStr config) \<and> getattr args ''bam'' = Inr (PStr bam)
    \<and> getattr args ''normalBam'' = Inr normalBam \<and> (normalBam = PNone \<or> (\<exists>p. normalBam = PStr p))
    \<and> getattr args ''outDir'' = Inr (PStr outDir)
    \<and> getattr args ''processes'' = Inr (PInt processes)
    \<and> getattr args ''debug'' = Inr (PBool debug)
    \<and> getattr args ''call_tds'' = Inr (PBool tds)
    \<and> (if tds then getattr args ''predict'' = Inl (AttributeError ''Namespace'' ''predict'')
        else (\<exists>predict. getattr args ''predict'' = Inr (PBool predict)))"
  using assms
  by (cases tds)
     (simp_all add: parsing_def attr_is_str_def attr_is_str_or_None_def attr_is_int_def
        attr_is_bool_def getattr_def split: option.splits pyval.splits)

subsection \<open>No subcommand\<close>

text \<open>
  C10. When the dependency checks pass and the command line has no argument at all, the
  parser accepts it and returns the empty namespace; the script then ends with the
  uncaught \<open>AttributeError\<close> of \<open>args.config\<close>, not with a usage error and its exit
  status, and it has changed nothing outside.
\<close>

theorem no_subcommand_attribute_error:
  assumes "missing_python_dependencies env = []"
    and "missing_program_dependencies env = []"
    and "argv env = []"
  shows "parse_args (getcwd env) (argv env) = (Inr [] :: exc + 'f namespace)
    \<and> main (env :: 'f env) w = (Inl (AttributeError ''Namespace'' ''config''), w)"
  using assms
  by (simp add: main_def check_dependencies_pass parse_args_def run_args_def getattr_def)

theorem no_subcommand_attribute_error_witness:
  "parse_args (getcwd (example_env example_config [])) (argv (example_env example_config []))
     = (Inr [] :: exc + string namespace)
   \<and> main (example_env example_config []) world0
     = (Inl (AttributeError ''Namespace'' ''config''), world0)"
  using no_subcommand_attribute_error [of "example_env example_config []" world0]
  by (simp add: example_env_def)


subsection \<open>The subcommand \<open>call-tds\<close>\<close>

text \<open>
  C1. The command line \<open>call-tds cfg.ini t.bam\<close>, with every dependency present and a
  configuration file that has every key: the run makes the output directory and then
  ends at line 131 with the \<open>AttributeError\<close> of \<open>args.predict\<close>, an option that only
  the subcommand \<open>call\<close> declares. No engine is constructed and none is called.
\<close>

theorem call_tds_attribute_error:
  "main (example_env example_config [''call-tds'', ''cfg.ini'', ''t.bam'']) world0
     = (Inl (AttributeError ''Namespace'' ''predict''), world0\<lparr>dirs := [''/cwd'']\<rparr>)"
  by code_simp

subsection \<open>The time stamp of the debug mode\<close>

text \<open>
  C2. The command line \<open>call cfg.ini t.bam -d\<close> with a clock that moves on by one second
  between its readings: the run reads the clock twice (lines 102 and 174). The directory
  made at line 106 carries the first time stamp, the output directory of line 183 and
  its \<open>logs\<close> directory carry the second one.
\<close>

theorem debug_two_time_stamps:
  "ticks (snd (main (example_env example_config [''call'', ''cfg.ini'', ''t.bam'', ''-d'']) world0)) = 2
   \<and> dirs (snd (main (example_env example_config [''call'', ''cfg.ini'', ''t.bam'', ''-d'']) world0))
     = [''/cwd/20240101000000'', ''/cwd/20240101000001'', ''/cwd/20240101000001/logs'']"
  by code_simp

end
